theory Spec2Isabelle
  imports Complex_Main
begin

section \<open>The evaluation script \<open>eval.py\<close>\<close>

text \<open>
  The script parses its command line, builds an evaluation generator, loads a RetinaNet
  model, runs the evaluator and reports the metrics to an experiment tracker. The model
  below follows the source function by function. Everything the script delegates to a
  library (the clock, the generator class, the model loader, the evaluator, the two
  DeepForest metrics) is a field of a record of external routines; every effect the
  script has on the outside (environment variable, directory creation, printing,
  logging, delegated calls) is an event appended to a trace, in program order.
\<close>

subsection \<open>Python values\<close>

text \<open>
  Attributes of the parsed arguments are dynamically typed: an option that was not given
  is \<open>None\<close>, a flag is a bool, a converted option an int or a float (idealised as a
  real number), anything else a string.
\<close>

datatype pyval =
    PNone
  | PBool bool
  | PInt int
  | PFloat real
  | PStr string
  | PList "pyval list"

text \<open>The exceptions that the script itself can raise.\<close>

datatype exn =
    SystemExit int
  | TypeError
  | ZeroDivisionError
  | IndexError
  | KeyError

subsection \<open>Data\<close>

text \<open>One annotation: an image, a bounding box and a class label.\<close>

record annotation =
  image_path :: string
  bbox :: "int \<times> int \<times> int \<times> int"
  class_name :: string

type_synonym dataset = "annotation list"

text \<open>
  \<open>DeepForest_config\<close>: the two keys that \<open>create_generator\<close> reads, and the
  remaining settings.
\<close>

record config =
  single_tile :: pyval
  rgb_tile_dir :: pyval
  other_settings :: "(string \<times> pyval) list"

text \<open>
  The result of \<open>parse_args\<close>: an \<open>argparse.Namespace\<close> with one attribute per
  argument of the parser. \<open>unrecognized_args\<close> is the attribute under which a
  sub-parser leaves the strings it did not recognise for the top-level parser.
\<close>

record namespace =
  batch_size :: pyval
  dataset_type :: pyval
  annotations :: pyval
  model :: pyval
  convert_model :: pyval
  backbone :: pyval
  gpu :: pyval
  score_threshold :: pyval
  iou_threshold :: pyval
  max_detections :: pyval
  suppression_threshold :: pyval
  save_path :: pyval
  image_min_side :: pyval
  image_max_side :: pyval
  unrecognized_args :: "string list"

text \<open>
  An \<open>OnTheFlyGenerator\<close> object is represented by the arguments of its constructor
  call (lines 59-66).
\<close>

record generator =
  csv_data_file :: pyval
  gen_data :: dataset
  gen_batch_size :: pyval
  base_dir :: pyval
  gen_config :: config
  group_method :: string
  shuffle_groups :: bool

text \<open>
  The module-level names that \<open>create_generator\<close> and \<open>main\<close> read without
  receiving them as parameters: \<open>DeepForest_config\<close>, the module \<open>preprocess\<close>
  (its function \<open>split_training\<close>) and \<open>site\<close>. They are bound in the
  \<open>__main__\<close> block (lines 195-211) before \<open>main\<close> is called.
\<close>

record preprocess_module =
  split_training :: "pyval \<Rightarrow> config \<Rightarrow> pyval \<Rightarrow> pyval \<Rightarrow> dataset \<times> dataset"

record globals =
  DeepForest_config :: config
  preprocess :: preprocess_module
  site :: string

subsection \<open>\<open>create_generator\<close> (lines 51-68)\<close>

definition create_generator :: "globals \<Rightarrow> namespace \<Rightarrow> config \<Rightarrow> generator" where
  "create_generator G args config =
    (let (train, test) =
       split_training (preprocess G) (annotations args) (DeepForest_config G)
         (single_tile (DeepForest_config G)) PNone
     in \<lparr> csv_data_file = annotations args,
          gen_data = test,
          gen_batch_size = batch_size args,
          base_dir = rgb_tile_dir (DeepForest_config G),
          gen_config = DeepForest_config G,
          group_method = ''none'',
          shuffle_groups = False \<rparr>)"

subsection \<open>The \<open>argparse\<close> library\<close>

text \<open>
  \<open>parse_args\<close> only declares a parser; the parsing itself is done by the standard
  library. The definitions of this subsection follow CPython's \<open>argparse.py\<close>
  (\<open>ArgumentParser._parse_known_args\<close> and its helpers), restricted to what the two
  parsers of the script use: options and positionals with \<open>nargs=None\<close>, options
  without argument (\<open>store_true\<close>, \<open>help\<close>) and the sub-parser action
  (\<open>nargs=PARSER\<close>). Strings are ASCII.

  Each argument string is first classified as an option (\<open>O\<close>), an argument
  (\<open>A\<close>) or the separator \<open>--\<close> (\<open>-\<close>); the resulting pattern string is matched
  against small regular expressions to decide how many strings an action consumes.
\<close>

datatype nargs = Nargs_None | Nargs_0 | Nargs_PARSER

text \<open>The regular expressions that occur: a literal character, or a starred character class.\<close>

datatype rx = Lit char | Star string

text \<open>
  \<open>rx_match r s\<close> lists the lengths of the prefixes of \<open>s\<close> that \<open>r\<close> matches, in the
  order in which a backtracking matcher tries them (a star is greedy).
\<close>

fun rx_match :: "rx list \<Rightarrow> string \<Rightarrow> nat list" where
  "rx_match [] s = [0]"
| "rx_match (Lit c # r) [] = []"
| "rx_match (Lit c # r) (x # s) = (if x = c then map Suc (rx_match r s) else [])"
| "rx_match (Star cs # r) [] = rx_match r []"
| "rx_match (Star cs # r) (x # s) =
     (if x \<in> set cs then map Suc (rx_match (Star cs # r) s) else []) @ rx_match r (x # s)"

fun first_some :: "('a \<Rightarrow> 'b option) \<Rightarrow> 'a list \<Rightarrow> 'b option" where
  "first_some f [] = None"
| "first_some f (x # xs) = (case f x of Some y \<Rightarrow> Some y | None \<Rightarrow> first_some f xs)"

text \<open>
  \<open>re.match\<close> of the concatenation of several groups: the length of each group in the
  first match that backtracking finds.
\<close>

primrec match_groups :: "rx list list \<Rightarrow> string \<Rightarrow> nat list option" where
  "match_groups [] = (\<lambda>s. Some [])"
| "match_groups (g # gs) =
     (\<lambda>s. first_some (\<lambda>n. map_option (Cons n) (match_groups gs (drop n s))) (rx_match g s))"

text \<open>
  A parser, as far as parsing is concerned: its actions in the order of their
  declaration, their option strings (none for a positional), \<open>nargs\<close>, whether they are
  required, and what an action does with the strings it receives (\<open>_get_values\<close>
  followed by the action's \<open>__call__\<close>). Two fields read and delete the
  attribute that holds the strings a sub-parser has not recognised; \<open>defaults\<close> is
  the fresh namespace with the default of every action.
\<close>

record ('a, 'ns) argument_parser =
  actions :: "'a list"
  option_strings :: "'a \<Rightarrow> string list"
  nargs :: "'a \<Rightarrow> nargs"
  required :: "'a \<Rightarrow> bool"
  call :: "'a \<Rightarrow> string list \<Rightarrow> 'ns \<Rightarrow> exn + 'ns"
  get_unrecognized :: "'ns \<Rightarrow> string list"
  del_unrecognized :: "'ns \<Rightarrow> 'ns"
  defaults :: 'ns

text \<open>\<open>_option_string_actions\<close>: the dictionary from option string to action.\<close>

definition option_string_actions :: "('a, 'ns) argument_parser \<Rightarrow> (string \<times> 'a) list" where
  "option_string_actions P =
     concat (map (\<lambda>a. map (\<lambda>s. (s, a)) (option_strings P a)) (actions P))"

definition get_positional_actions :: "('a, 'ns) argument_parser \<Rightarrow> 'a list" where
  "get_positional_actions P = filter (\<lambda>a. option_strings P a = []) (actions P)"

text \<open>\<open>_get_nargs_pattern\<close>: for an option, \<open>--\<close> is not allowed among its arguments.\<close>

definition get_nargs_pattern :: "('a, 'ns) argument_parser \<Rightarrow> 'a \<Rightarrow> rx list" where
  "get_nargs_pattern P a =
     (let nargs_pattern =
        (case nargs P a of
           Nargs_None \<Rightarrow> [Star ''-'', Lit (CHR ''A''), Star ''-'']
         | Nargs_0 \<Rightarrow> [Star ''-'', Star ''-'']
         | Nargs_PARSER \<Rightarrow> [Star ''-'', Lit (CHR ''A''), Star ''-AO''])
      in if option_strings P a \<noteq> []
         then map (\<lambda>r. case r of Lit c \<Rightarrow> Lit c | Star cs \<Rightarrow> Star (filter (\<lambda>c. c \<noteq> CHR ''-'') cs))
                (filter (\<lambda>r. r \<noteq> Star ''-'') nargs_pattern)
         else nargs_pattern)"

text \<open>\<open>_match_argument\<close>: a failed match is the error \<open>expected one argument\<close>.\<close>

definition match_argument :: "('a, 'ns) argument_parser \<Rightarrow> 'a \<Rightarrow> string \<Rightarrow> exn + nat" where
  "match_argument P a arg_strings_pattern =
     (case match_groups [get_nargs_pattern P a] arg_strings_pattern of
        Some [n] \<Rightarrow> Inr n
      | _ \<Rightarrow> Inl (SystemExit 2))"

text \<open>
  \<open>_match_arguments_partial\<close>: the longest initial part of the list of positionals
  that matches, tried from the whole list downwards.
\<close>

fun match_from :: "('a, 'ns) argument_parser \<Rightarrow> 'a list \<Rightarrow> string \<Rightarrow> nat \<Rightarrow> nat list" where
  "match_from P as pat 0 = []"
| "match_from P as pat (Suc i) =
     (case match_groups (map (get_nargs_pattern P) (take (Suc i) as)) pat of
        Some counts \<Rightarrow> counts
      | None \<Rightarrow> match_from P as pat i)"

definition match_arguments_partial :: "('a, 'ns) argument_parser \<Rightarrow> 'a list \<Rightarrow> string \<Rightarrow> nat list" where
  "match_arguments_partial P as arg_strings_pattern =
     match_from P as arg_strings_pattern (length as)"

text \<open>
  An option tuple: the action (or \<open>None\<close> for a string that looks like an option that
  the parser does not have), the option string, the separator and the explicit argument.
\<close>

type_synonym 'a option_tuple = "'a option \<times> string \<times> string option \<times> string option"

definition str_startswith :: "string \<Rightarrow> string \<Rightarrow> bool" where
  "str_startswith s p \<longleftrightarrow> take (length p) s = p"

text \<open>\<open>str.partition('=')\<close>.\<close>

definition partition_eq :: "string \<Rightarrow> string \<times> string \<times> string" where
  "partition_eq s =
     (if CHR ''='' \<in> set s
      then (takeWhile (\<lambda>c. c \<noteq> CHR ''='') s, ''='', drop 1 (dropWhile (\<lambda>c. c \<noteq> CHR ''='') s))
      else (s, [], []))"

text \<open>
  \<open>_get_option_tuples\<close>: the options that a string abbreviates. A string with two
  leading dashes is split at \<open>=\<close> and may be any prefix of an option string; a string
  with one leading dash is a one-letter option with its argument attached, or a prefix.
  The caller passes strings of at least two characters.
\<close>

definition get_option_tuples :: "('a, 'ns) argument_parser \<Rightarrow> string \<Rightarrow> exn + 'a option_tuple list" where
  "get_option_tuples P option_string =
     (case option_string of
        c0 # c1 # rest \<Rightarrow>
          if c0 = CHR ''-'' \<and> c1 = CHR ''-'' then
            (let (option_prefix, sep0, explicit_arg0) = partition_eq option_string;
                 sep = (if sep0 = [] then None else Some sep0);
                 explicit_arg = (if sep0 = [] then None else Some explicit_arg0)
             in Inr (map (\<lambda>(s, a). (Some a, s, sep, explicit_arg))
                      (filter (\<lambda>(s, a). str_startswith s option_prefix)
                         (option_string_actions P))))
          else if c0 = CHR ''-'' \<and> c1 \<noteq> CHR ''-'' then
            (let short_option_prefix = take 2 option_string;
                 short_explicit_arg = drop 2 option_string
             in Inr (concat (map (\<lambda>(s, a).
                      if s = short_option_prefix then [(Some a, s, Some [], Some short_explicit_arg)]
                      else if str_startswith s option_string then [(Some a, s, None, None)]
                      else [])
                    (option_string_actions P))))
          else Inl (SystemExit 2)
      | _ \<Rightarrow> Inl IndexError)"

text \<open>
  The regular expression \<open>^-\d+$|^-\d*\.\d+$\<close> for strings that look like negative
  numbers (\<open>$\<close> also matches before a final newline).
\<close>

definition is_digit :: "char \<Rightarrow> bool" where
  "is_digit c \<longleftrightarrow> c \<in> set ''0123456789''"

definition negative_number_body :: "string \<Rightarrow> bool" where
  "negative_number_body s =
     (case s of
        [] \<Rightarrow> False
      | c # r \<Rightarrow>
          c = CHR ''-'' \<and>
          ((r \<noteq> [] \<and> list_all is_digit r) \<or>
           (case dropWhile is_digit r of
              [] \<Rightarrow> False
            | d # f \<Rightarrow> d = CHR ''.'' \<and> f \<noteq> [] \<and> list_all is_digit f)))"

definition negative_number_matcher :: "string \<Rightarrow> bool" where
  "negative_number_matcher s \<longleftrightarrow>
     negative_number_body s \<or>
     (s \<noteq> [] \<and> last s = CHR 0x0A \<and> negative_number_body (butlast s))"

definition has_negative_number_optionals :: "('a, 'ns) argument_parser \<Rightarrow> bool" where
  "has_negative_number_optionals P \<longleftrightarrow>
     list_ex (\<lambda>(s, a). negative_number_matcher s) (option_string_actions P)"

text \<open>
  \<open>_parse_optional\<close>: \<open>None\<close> for a string meant as a positional, otherwise its option
  tuple. An ambiguous abbreviation is an error.
\<close>

definition parse_optional ::
  "('a, 'ns) argument_parser \<Rightarrow> string \<Rightarrow> exn + 'a option_tuple option" where
  "parse_optional P arg_string =
     (if arg_string = [] then Inr None
      else if hd arg_string \<noteq> CHR ''-'' then Inr None
      else case map_of (option_string_actions P) arg_string of
        Some a \<Rightarrow> Inr (Some (Some a, arg_string, None, None))
      | None \<Rightarrow>
          if length arg_string = 1 then Inr None
          else
            (let (option_string, sep, explicit_arg) = partition_eq arg_string in
             case (if sep \<noteq> [] then map_of (option_string_actions P) option_string else None) of
               Some a \<Rightarrow> Inr (Some (Some a, option_string, Some sep, Some explicit_arg))
             | None \<Rightarrow>
                 (case get_option_tuples P arg_string of
                    Inl e \<Rightarrow> Inl e
                  | Inr [] \<Rightarrow>
                      if negative_number_matcher arg_string \<and> \<not> has_negative_number_optionals P
                      then Inr None
                      else if CHR '' '' \<in> set arg_string then Inr None
                      else Inr (Some (None, arg_string, None, None))
                  | Inr [option_tuple] \<Rightarrow> Inr (Some option_tuple)
                  | Inr _ \<Rightarrow> Inl (SystemExit 2))))"

text \<open>
  The first loop of \<open>_parse_known_args\<close>: the indices of the option strings with their
  tuples, and the pattern. Everything after \<open>--\<close> is an argument.
\<close>

fun classify ::
  "('a, 'ns) argument_parser \<Rightarrow> nat \<Rightarrow> string list \<Rightarrow> exn + ((nat \<times> 'a option_tuple) list \<times> string)" where
  "classify P i [] = Inr ([], [])"
| "classify P i (arg_string # rest) =
     (if arg_string = ''--'' then Inr ([], CHR ''-'' # replicate (length rest) (CHR ''A''))
      else case parse_optional P arg_string of
        Inl e \<Rightarrow> Inl e
      | Inr option_tuple \<Rightarrow>
          (case classify P (Suc i) rest of
             Inl e \<Rightarrow> Inl e
           | Inr (option_string_indices, pattern) \<Rightarrow>
               (case option_tuple of
                  None \<Rightarrow> Inr (option_string_indices, CHR ''A'' # pattern)
                | Some t \<Rightarrow> Inr ((i, t) # option_string_indices, CHR ''O'' # pattern))))"

text \<open>
  The state of \<open>_parse_known_args\<close>: the actions seen so far, the strings nobody
  consumed, and the namespace.
\<close>

record ('a, 'ns) parse_state =
  seen_actions :: "'a list"
  extras :: "string list"
  ns :: 'ns

definition take_action ::
  "('a, 'ns) argument_parser \<Rightarrow> 'a \<Rightarrow> string list \<Rightarrow> ('a, 'ns) parse_state \<Rightarrow> exn + ('a, 'ns) parse_state" where
  "take_action P a argument_strings st =
     (case call P a argument_strings (ns st) of
        Inl e \<Rightarrow> Inl e
      | Inr n \<Rightarrow> Inr (st\<lparr>seen_actions := a # seen_actions st, ns := n\<rparr>))"

fun take_actions ::
  "('a, 'ns) argument_parser \<Rightarrow> ('a \<times> string list) list \<Rightarrow> ('a, 'ns) parse_state \<Rightarrow> exn + ('a, 'ns) parse_state" where
  "take_actions P [] st = Inr st"
| "take_actions P ((a, args) # rest) st =
     (case take_action P a args st of
        Inl e \<Rightarrow> Inl e
      | Inr st' \<Rightarrow> take_actions P rest st')"

text \<open>
  One round of the inner loop of \<open>consume_optional\<close>, for an action that the parser
  has. With an explicit argument (\<open>--opt=arg\<close>, or the rest of \<open>-xyz\<close>), an action
  that takes no argument and has a one-dash option string hands the rest on to the next
  one-letter option (\<open>Next\<close>); otherwise the round ends the loop (\<open>Stop\<close>) with the
  arguments of the action, the extras and the index where parsing goes on.
\<close>

datatype 'a loop_step =
    Stop "string list" "string list" nat
  | Next 'a string "string option" "string option"

definition optional_step ::
  "('a, 'ns) argument_parser \<Rightarrow> string list \<Rightarrow> string \<Rightarrow> nat \<Rightarrow> 'a \<Rightarrow> string \<Rightarrow>
   string option \<Rightarrow> string option \<Rightarrow> string list \<Rightarrow> exn + 'a loop_step" where
  "optional_step P arg_strings pat start_index a option_string sep explicit_arg xs =
     (case explicit_arg of
        Some ea \<Rightarrow>
          (case match_argument P a ''A'' of
             Inl e \<Rightarrow> Inl e
           | Inr arg_count \<Rightarrow>
               if arg_count = 0 \<and> take 1 (drop 1 option_string) \<noteq> ''-'' \<and> ea \<noteq> [] then
                 (if (sep \<noteq> None \<and> sep \<noteq> Some []) \<or> take 1 ea = ''-''
                  then Inl (SystemExit 2)
                  else
                    (let option_string' = take 1 option_string @ take 1 ea in
                     case map_of (option_string_actions P) option_string' of
                       Some a' \<Rightarrow>
                         (let ea' = drop 1 ea in
                          if ea' = [] then Inr (Next a' option_string' None None)
                          else if take 1 ea' = ''=''
                          then Inr (Next a' option_string' (Some ''='') (Some (drop 1 ea')))
                          else Inr (Next a' option_string' (Some []) (Some ea')))
                     | None \<Rightarrow>
                         Inr (Stop [] (xs @ [take 1 option_string @ ea]) (start_index + 1))))
               else if arg_count = 1 then Inr (Stop [ea] xs (start_index + 1))
               else Inl (SystemExit 2))
      | None \<Rightarrow>
          (let start = start_index + 1 in
           case match_argument P a (drop start pat) of
             Inl e \<Rightarrow> Inl e
           | Inr arg_count \<Rightarrow>
               Inr (Stop (take arg_count (drop start arg_strings)) xs (start + arg_count))))"

definition explicit_size :: "string option \<Rightarrow> nat" where
  "explicit_size explicit_arg = (case explicit_arg of None \<Rightarrow> 0 | Some ea \<Rightarrow> Suc (length ea))"

lemma optional_step_Next:
  assumes "optional_step P arg_strings pat start_index a option_string sep explicit_arg xs
    = Inr (Next a' option_string' sep' explicit_arg')"
  shows "explicit_size explicit_arg' < explicit_size explicit_arg"
proof (cases explicit_arg)
  case None
  with assms show ?thesis
    by (simp add: optional_step_def Let_def split: sum.splits)
next
  case (Some ea)
  with assms have "ea \<noteq> []"
    by (auto simp: optional_step_def Let_def split: sum.splits if_splits)
  moreover from assms Some
  have "explicit_arg' = None \<or> explicit_arg' = Some (drop 1 ea)
      \<or> explicit_arg' = Some (drop 1 (drop 1 ea))"
    by (simp add: optional_step_def Let_def split: sum.splits if_splits option.splits)
  ultimately show ?thesis
    using Some by (auto simp: explicit_size_def)
qed

lemma optional_step_Stop:
  assumes "optional_step P arg_strings pat start_index a option_string sep explicit_arg xs
    = Inr (Stop args xs' stop)"
  shows "start_index < stop"
proof (cases explicit_arg)
  case None
  with assms show ?thesis
    by (auto simp: optional_step_def Let_def split: sum.splits)
next
  case (Some ea)
  with assms have "stop = start_index + 1"
    by (simp add: optional_step_def Let_def split: sum.splits if_splits option.splits)
  then show ?thesis by simp
qed

text \<open>
  The inner loop of \<open>consume_optional\<close>: the list of actions to take with their
  arguments, the new extras and the index where to go on. A string that looks like an
  option that the parser does not have goes to the extras.
\<close>

function optional_loop ::
  "('a, 'ns) argument_parser \<Rightarrow> string list \<Rightarrow> string \<Rightarrow> nat \<Rightarrow> 'a option \<Rightarrow> string \<Rightarrow>
   string option \<Rightarrow> string option \<Rightarrow> ('a \<times> string list) list \<Rightarrow> string list \<Rightarrow>
   exn + (('a \<times> string list) list \<times> string list \<times> nat)" where
  "optional_loop P arg_strings pat start_index action option_string sep explicit_arg
      action_tuples xs =
     (case action of
        None \<Rightarrow> Inr ([], xs @ take 1 (drop start_index arg_strings), start_index + 1)
      | Some a \<Rightarrow>
          (case optional_step P arg_strings pat start_index a option_string sep explicit_arg xs of
             Inl e \<Rightarrow> Inl e
           | Inr (Stop args xs' stop) \<Rightarrow> Inr (action_tuples @ [(a, args)], xs', stop)
           | Inr (Next a' option_string' sep' explicit_arg') \<Rightarrow>
               optional_loop P arg_strings pat start_index (Some a') option_string' sep'
                 explicit_arg' (action_tuples @ [(a, [])]) xs))"
  by pat_completeness auto
termination
  by (relation "measure (\<lambda>(P, arg_strings, pat, start_index, action, option_string, sep,
        explicit_arg, action_tuples, xs). explicit_size explicit_arg)")
    (auto dest: optional_step_Next)

declare optional_loop.simps [simp del]

text \<open>
  \<open>consume_optional\<close>: the option at \<open>start_index\<close> and the arguments that follow it.
\<close>

definition consume_optional ::
  "('a, 'ns) argument_parser \<Rightarrow> string list \<Rightarrow> (nat \<times> 'a option_tuple) list \<Rightarrow> string \<Rightarrow> nat \<Rightarrow>
   ('a, 'ns) parse_state \<Rightarrow> exn + (nat \<times> ('a, 'ns) parse_state)" where
  "consume_optional P arg_strings option_string_indices pat start_index st =
     (case map_of option_string_indices start_index of
        None \<Rightarrow> Inl KeyError
      | Some (action, option_string, sep, explicit_arg) \<Rightarrow>
          (case optional_loop P arg_strings pat start_index action option_string sep
                  explicit_arg [] (extras st) of
             Inl e \<Rightarrow> Inl e
           | Inr (action_tuples, xs, stop) \<Rightarrow>
               (case take_actions P action_tuples (st\<lparr>extras := xs\<rparr>) of
                  Inl e \<Rightarrow> Inl e
                | Inr st' \<Rightarrow> Inr (stop, st'))))"

text \<open>
  \<open>consume_positionals\<close>: as many of the remaining positionals as match the pattern
  from \<open>start_index\<close> on; each takes its slice of the argument strings.
\<close>

fun take_positionals ::
  "('a, 'ns) argument_parser \<Rightarrow> string list \<Rightarrow> ('a \<times> nat) list \<Rightarrow> nat \<Rightarrow> ('a, 'ns) parse_state \<Rightarrow>
   exn + (nat \<times> ('a, 'ns) parse_state)" where
  "take_positionals P arg_strings [] start_index st = Inr (start_index, st)"
| "take_positionals P arg_strings ((a, arg_count) # rest) start_index st =
     (case take_action P a (take arg_count (drop start_index arg_strings)) st of
        Inl e \<Rightarrow> Inl e
      | Inr st' \<Rightarrow> take_positionals P arg_strings rest (start_index + arg_count) st')"

definition consume_positionals ::
  "('a, 'ns) argument_parser \<Rightarrow> string list \<Rightarrow> string \<Rightarrow> 'a list \<Rightarrow> nat \<Rightarrow> ('a, 'ns) parse_state \<Rightarrow>
   exn + (nat \<times> 'a list \<times> ('a, 'ns) parse_state)" where
  "consume_positionals P arg_strings pat positionals start_index st =
     (let arg_counts = match_arguments_partial P positionals (drop start_index pat) in
      case take_positionals P arg_strings (zip positionals arg_counts) start_index st of
        Inl e \<Rightarrow> Inl e
      | Inr (stop, st') \<Rightarrow> Inr (stop, drop (length arg_counts) positionals, st'))"

definition max_option_string_index :: "(nat \<times> 'a) list \<Rightarrow> int" where
  "max_option_string_index option_string_indices =
     (if option_string_indices = [] then - 1
      else int (Max (set (map fst option_string_indices))))"

definition next_option_string_index :: "(nat \<times> 'a) list \<Rightarrow> nat \<Rightarrow> nat" where
  "next_option_string_index option_string_indices start_index =
     Min (set (filter (\<lambda>index. index \<ge> start_index) (map fst option_string_indices)))"

text \<open>
  The main loop of \<open>_parse_known_args\<close>: positionals and options are consumed
  alternately until the last option string has been passed. Its termination rests on
  the fact that consuming an option always advances the index.
\<close>

lemma optional_loop_stop:
  "optional_loop P arg_strings pat start_index action option_string sep explicit_arg
     action_tuples xs = Inr (tuples, xs', stop) \<Longrightarrow> start_index < stop"
proof (induction P arg_strings pat start_index action option_string sep explicit_arg
    action_tuples xs rule: optional_loop.induct)
  case (1 P arg_strings pat start_index action option_string sep explicit_arg action_tuples xs)
  show ?case
  proof (cases action)
    case None
    with "1.prems" show ?thesis
      by (simp add: optional_loop.simps)
  next
    case (Some a)
    show ?thesis
    proof (cases "optional_step P arg_strings pat start_index a option_string sep explicit_arg xs")
      case (Inl e)
      with Some "1.prems" show ?thesis
        by (simp add: optional_loop.simps)
    next
      case (Inr r)
      show ?thesis
      proof (cases r)
        case (Stop args ys n)
        with Some Inr "1.prems" have "n = stop"
          by (simp add: optional_loop.simps)
        with Stop Inr have "optional_step P arg_strings pat start_index a option_string sep
            explicit_arg xs = Inr (Stop args ys stop)"
          by simp
        then show ?thesis
          by (rule optional_step_Stop)
      next
        case (Next a' option_string' sep' explicit_arg')
        with Some Inr "1.prems" "1.IH" show ?thesis
          by (simp add: optional_loop.simps)
      qed
    qed
  qed
qed

lemma consume_optional_stop:
  "consume_optional P arg_strings osi pat start_index st = Inr (stop, st') \<Longrightarrow> start_index < stop"
  by (auto simp: consume_optional_def split: option.splits sum.splits prod.splits
      dest: optional_loop_stop)

lemma take_positionals_stop:
  "take_positionals P arg_strings acs start_index st = Inr (stop, st') \<Longrightarrow> start_index \<le> stop"
  by (induction P arg_strings acs start_index st rule: take_positionals.induct)
    (auto split: sum.splits)

lemma next_option_string_index_ge:
  "int start_index \<le> max_option_string_index osi \<Longrightarrow>
   start_index \<le> next_option_string_index osi start_index"
proof -
  let ?S = "set (filter (\<lambda>index. index \<ge> start_index) (map fst osi))"
  assume a: "int start_index \<le> max_option_string_index osi"
  then have ne: "osi \<noteq> []"
    by (auto simp: max_option_string_index_def)
  with a have le: "start_index \<le> Max (set (map fst osi))"
    by (simp add: max_option_string_index_def)
  have "Max (set (map fst osi)) \<in> set (map fst osi)"
    using ne by (intro Max_in) auto
  with le have "Max (set (map fst osi)) \<in> ?S"
    by simp
  then have "?S \<noteq> {}"
    using equals0D by fastforce
  then have "Min ?S \<in> ?S"
    by (intro Min_in) auto
  then show ?thesis
    by (simp add: next_option_string_index_def)
qed

function parse_loop ::
  "('a, 'ns) argument_parser \<Rightarrow> string list \<Rightarrow> (nat \<times> 'a option_tuple) list \<Rightarrow> string \<Rightarrow>
   nat \<Rightarrow> 'a list \<Rightarrow> ('a, 'ns) parse_state \<Rightarrow> exn + (nat \<times> 'a list \<times> ('a, 'ns) parse_state)" where
  "parse_loop P arg_strings osi pat start_index positionals st =
     (if int start_index \<le> max_option_string_index osi then
        (let next_index = next_option_string_index osi start_index in
         case (if start_index \<noteq> next_index
               then consume_positionals P arg_strings pat positionals start_index st
               else Inr (start_index, positionals, st)) of
           Inl e \<Rightarrow> Inl e
         | Inr (positionals_end_index, positionals', st') \<Rightarrow>
             if start_index \<noteq> next_index \<and> positionals_end_index > start_index then
               parse_loop P arg_strings osi pat positionals_end_index positionals' st'
             else
               (let skip = positionals_end_index \<notin> set (map fst osi);
                    st'' = (if skip
                            then st'\<lparr>extras := extras st' @
                                   take (next_index - positionals_end_index)
                                     (drop positionals_end_index arg_strings)\<rparr>
                            else st');
                    start_index' = (if skip then next_index else positionals_end_index)
                in case consume_optional P arg_strings osi pat start_index' st'' of
                     Inl e \<Rightarrow> Inl e
                   | Inr (stop, st3) \<Rightarrow>
                       parse_loop P arg_strings osi pat stop positionals' st3))
      else Inr (start_index, positionals, st))"
  by pat_completeness auto
termination
proof (relation "measure (\<lambda>(P, arg_strings, osi, pat, start_index, positionals, st).
    nat (max_option_string_index osi + 1 - int start_index))", goal_cases)
  case 1
  show ?case by simp
next
  case (2 P arg_strings osi pat start_index positionals st next_index r pe rest positionals' st')
  then show ?case by auto
next
  case (3 P arg_strings osi pat start_index positionals st next_index r pe rest positionals' st'
      skip st'' start_index' r2 stop st3)
  from 3 have ge: "start_index \<le> next_index"
    using next_option_string_index_ge by blast
  from 3 have "start_index \<le> pe"
    by (auto simp: consume_positionals_def Let_def split: if_splits sum.splits prod.splits
        dest: take_positionals_stop)
  with ge 3 have "start_index \<le> start_index'"
    by (auto split: if_splits)
  moreover from 3 have "start_index' < stop"
    using consume_optional_stop by blast
  ultimately show ?case
    using 3 by auto
qed

declare parse_loop.simps [simp del]

text \<open>
  \<open>parse_known_args\<close>: classification, the main loop, the positionals after the last
  option, and the check that every required action has been seen. Every
  \<open>ArgumentError\<close> ends in \<open>parser.error\<close>, which exits with status 2. (The default of
  \<open>--backbone\<close> is the only string default; its conversion with the identity changes
  nothing and is left out.)
\<close>

definition parse_known_args ::
  "('a, 'ns) argument_parser \<Rightarrow> string list \<Rightarrow> exn + ('ns \<times> string list)" where
  "parse_known_args P arg_strings =
     (case classify P 0 arg_strings of
        Inl e \<Rightarrow> Inl e
      | Inr (option_string_indices, pat) \<Rightarrow>
          (case parse_loop P arg_strings option_string_indices pat 0 (get_positional_actions P)
                  \<lparr>seen_actions = [], extras = [], ns = defaults P\<rparr> of
             Inl e \<Rightarrow> Inl e
           | Inr (start_index, positionals, st) \<Rightarrow>
               (case consume_positionals P arg_strings pat positionals start_index st of
                  Inl e \<Rightarrow> Inl e
                | Inr (stop_index, positionals', st') \<Rightarrow>
                    (let xs = extras st' @ drop stop_index arg_strings;
                         required_actions =
                           filter (\<lambda>a. a \<notin> set (seen_actions st') \<and> required P a) (actions P)
                     in if required_actions \<noteq> [] then Inl (SystemExit 2)
                        else Inr (del_unrecognized P (ns st'),
                                  xs @ get_unrecognized P (ns st'))))))"

text \<open>\<open>ArgumentParser.parse_args\<close>: unrecognised arguments are an error.\<close>

definition argparse_parse_args :: "('a, 'ns) argument_parser \<Rightarrow> string list \<Rightarrow> exn + 'ns" where
  "argparse_parse_args P arg_strings =
     (case parse_known_args P arg_strings of
        Inl e \<Rightarrow> Inl e
      | Inr (args, argv) \<Rightarrow> if argv \<noteq> [] then Inl (SystemExit 2) else Inr args)"

text \<open>
  \<open>_get_values\<close> for an action with \<open>nargs=None\<close>: a positional drops the first
  \<open>--\<close>; a single string is converted by the action's \<open>type\<close>, anything else becomes
  a list. A failed conversion is an error.
\<close>

definition get_values :: "bool \<Rightarrow> (string \<Rightarrow> pyval option) \<Rightarrow> string list \<Rightarrow> exn + pyval" where
  "get_values positional type_func arg_strings =
     (let arg_strings' = (if positional then remove1 ''--'' arg_strings else arg_strings) in
      case arg_strings' of
        [arg_string] \<Rightarrow>
          (case type_func arg_string of None \<Rightarrow> Inl (SystemExit 2) | Some v \<Rightarrow> Inr v)
      | _ \<Rightarrow>
          (case those (map type_func arg_strings') of
             None \<Rightarrow> Inl (SystemExit 2)
           | Some vs \<Rightarrow> Inr (PList vs)))"

subsection \<open>\<open>parse_args\<close> (lines 71-96)\<close>

text \<open>
  The conversions \<open>int\<close> and \<open>float\<close> of a string are library functions and a
  parameter of the model: \<open>None\<close> stands for a \<open>ValueError\<close>. An argument without
  \<open>type\<close> stays a string.
\<close>

record pylib =
  py_int :: "string \<Rightarrow> int option"
  py_float :: "string \<Rightarrow> real option"

definition type_int :: "pylib \<Rightarrow> string \<Rightarrow> pyval option" where
  "type_int L s = map_option PInt (py_int L s)"

definition type_float :: "pylib \<Rightarrow> string \<Rightarrow> pyval option" where
  "type_float L s = map_option PFloat (py_float L s)"

definition type_str :: "string \<Rightarrow> pyval option" where
  "type_str s = Some (PStr s)"

text \<open>
  The sub-parser \<open>onthefly\<close> (lines 81-82): the help option that every parser has, and
  the positional \<open>annotations\<close>.
\<close>

datatype otf_action = Otf_help | Otf_annotations

record otf_namespace =
  otf_annotations :: pyval

fun otf_option_strings :: "otf_action \<Rightarrow> string list" where
  "otf_option_strings Otf_help = [''-h'', ''--help'']"
| "otf_option_strings Otf_annotations = []"

fun otf_nargs :: "otf_action \<Rightarrow> nargs" where
  "otf_nargs Otf_help = Nargs_0"
| "otf_nargs Otf_annotations = Nargs_None"

fun otf_required :: "otf_action \<Rightarrow> bool" where
  "otf_required Otf_help = False"
| "otf_required Otf_annotations = True"

text \<open>The help action prints the help and exits with status 0.\<close>

fun otf_call :: "otf_action \<Rightarrow> string list \<Rightarrow> otf_namespace \<Rightarrow> exn + otf_namespace" where
  "otf_call Otf_help arg_strings n = Inl (SystemExit 0)"
| "otf_call Otf_annotations arg_strings n =
     (case get_values True type_str arg_strings of
        Inl e \<Rightarrow> Inl e
      | Inr v \<Rightarrow> Inr (n\<lparr>otf_annotations := v\<rparr>))"

definition otf_parser :: "(otf_action, otf_namespace) argument_parser" where
  "otf_parser =
     \<lparr> actions = [Otf_help, Otf_annotations],
       option_strings = otf_option_strings,
       nargs = otf_nargs,
       required = otf_required,
       call = otf_call,
       get_unrecognized = (\<lambda>n. []),
       del_unrecognized = (\<lambda>n. n),
       defaults = \<lparr> otf_annotations = PNone \<rparr> \<rparr>"

text \<open>
  The top-level parser: its actions in the order of lines 74-94 (the help option comes
  with the parser, the sub-parsers action with \<open>add_subparsers\<close>).
\<close>

datatype action =
    Help
  | Batch_size
  | Subparsers
  | Model
  | Convert_model
  | Backbone
  | Gpu
  | Score_threshold
  | Iou_threshold
  | Max_detections
  | Suppression_threshold
  | Save_path
  | Image_min_side
  | Image_max_side

fun action_option_strings :: "action \<Rightarrow> string list" where
  "action_option_strings Help = [''-h'', ''--help'']"
| "action_option_strings Batch_size = [''--batch-size'']"
| "action_option_strings Subparsers = []"
| "action_option_strings Model = []"
| "action_option_strings Convert_model = [''--convert-model'']"
| "action_option_strings Backbone = [''--backbone'']"
| "action_option_strings Gpu = [''--gpu'']"
| "action_option_strings Score_threshold = [''--score-threshold'']"
| "action_option_strings Iou_threshold = [''--iou-threshold'']"
| "action_option_strings Max_detections = [''--max-detections'']"
| "action_option_strings Suppression_threshold = [''--suppression-threshold'']"
| "action_option_strings Save_path = [''--save-path'']"
| "action_option_strings Image_min_side = [''--image-min-side'']"
| "action_option_strings Image_max_side = [''--image-max-side'']"

fun action_nargs :: "action \<Rightarrow> nargs" where
  "action_nargs Help = Nargs_0"
| "action_nargs Convert_model = Nargs_0"
| "action_nargs Subparsers = Nargs_PARSER"
| "action_nargs a = Nargs_None"

text \<open>
  Line 78 makes the sub-command required; a positional with \<open>nargs=None\<close> is
  required; no option is.
\<close>

fun action_required :: "action \<Rightarrow> bool" where
  "action_required Subparsers = True"
| "action_required Model = True"
| "action_required a = False"

text \<open>
  The sub-parsers action: the first string must name a sub-parser (\<open>onthefly\<close> is the
  only one); it is stored as \<open>dataset_type\<close>. The other strings are parsed by the
  sub-parser into a fresh namespace, whose attributes are copied; what the sub-parser
  did not recognise is kept for the top-level parser.
\<close>

definition subparsers_call :: "string list \<Rightarrow> namespace \<Rightarrow> exn + namespace" where
  "subparsers_call values n =
     (case values of
        [] \<Rightarrow> Inl IndexError
      | parser_name # arg_strings \<Rightarrow>
          if parser_name \<noteq> ''onthefly'' then Inl (SystemExit 2)
          else
            (case parse_known_args otf_parser arg_strings of
               Inl e \<Rightarrow> Inl e
             | Inr (subnamespace, rest) \<Rightarrow>
                 Inr (n\<lparr> dataset_type := PStr parser_name,
                         annotations := otf_annotations subnamespace,
                         unrecognized_args := unrecognized_args n @ rest \<rparr>)))"

definition store ::
  "bool \<Rightarrow> (string \<Rightarrow> pyval option) \<Rightarrow> string list \<Rightarrow> (pyval \<Rightarrow> namespace) \<Rightarrow> exn + namespace" where
  "store positional type_func arg_strings setattr =
     (case get_values positional type_func arg_strings of
        Inl e \<Rightarrow> Inl e
      | Inr v \<Rightarrow> Inr (setattr v))"

fun action_call :: "pylib \<Rightarrow> action \<Rightarrow> string list \<Rightarrow> namespace \<Rightarrow> exn + namespace" where
  "action_call L Help xs n = Inl (SystemExit 0)"
| "action_call L Batch_size xs n = store False (type_int L) xs (\<lambda>v. n\<lparr>batch_size := v\<rparr>)"
| "action_call L Subparsers xs n = subparsers_call xs n"
| "action_call L Model xs n = store True type_str xs (\<lambda>v. n\<lparr>model := v\<rparr>)"
| "action_call L Convert_model xs n = Inr (n\<lparr>convert_model := PBool True\<rparr>)"
| "action_call L Backbone xs n = store False type_str xs (\<lambda>v. n\<lparr>backbone := v\<rparr>)"
| "action_call L Gpu xs n = store False type_str xs (\<lambda>v. n\<lparr>gpu := v\<rparr>)"
| "action_call L Score_threshold xs n =
     store False (type_float L) xs (\<lambda>v. n\<lparr>score_threshold := v\<rparr>)"
| "action_call L Iou_threshold xs n =
     store False (type_float L) xs (\<lambda>v. n\<lparr>iou_threshold := v\<rparr>)"
| "action_call L Max_detections xs n =
     store False (type_int L) xs (\<lambda>v. n\<lparr>max_detections := v\<rparr>)"
| "action_call L Suppression_threshold xs n =
     store False (type_float L) xs (\<lambda>v. n\<lparr>suppression_threshold := v\<rparr>)"
| "action_call L Save_path xs n = store False type_str xs (\<lambda>v. n\<lparr>save_path := v\<rparr>)"
| "action_call L Image_min_side xs n =
     store False (type_int L) xs (\<lambda>v. n\<lparr>image_min_side := v\<rparr>)"
| "action_call L Image_max_side xs n =
     store False (type_int L) xs (\<lambda>v. n\<lparr>image_max_side := v\<rparr>)"

text \<open>
  The defaults of lines 75-94. An argument declared without default has the default
  \<open>None\<close>; \<open>annotations\<close> belongs to the sub-parser and is set when its namespace is
  copied.
\<close>

definition default_namespace :: namespace where
  "default_namespace =
     \<lparr> batch_size = PInt 1,
       dataset_type = PNone,
       annotations = PNone,
       model = PNone,
       convert_model = PBool False,
       backbone = PStr ''resnet50'',
       gpu = PNone,
       score_threshold = PFloat 0.05,
       iou_threshold = PFloat 0.5,
       max_detections = PInt 100,
       suppression_threshold = PFloat 0.2,
       save_path = PNone,
       image_min_side = PInt 800,
       image_max_side = PInt 1333,
       unrecognized_args = [] \<rparr>"

definition parser :: "pylib \<Rightarrow> (action, namespace) argument_parser" where
  "parser L =
     \<lparr> actions = [Help, Batch_size, Subparsers, Model, Convert_model, Backbone, Gpu,
         Score_threshold, Iou_threshold, Max_detections, Suppression_threshold, Save_path,
         Image_min_side, Image_max_side],
       option_strings = action_option_strings,
       nargs = action_nargs,
       required = action_required,
       call = action_call L,
       get_unrecognized = unrecognized_args,
       del_unrecognized = (\<lambda>n. n\<lparr>unrecognized_args := []\<rparr>),
       defaults = default_namespace \<rparr>"

definition parse_args :: "pylib \<Rightarrow> string list \<Rightarrow> exn + namespace" where
  "parse_args L args = argparse_parse_args (parser L) args"

subsection \<open>The outside world\<close>

text \<open>
  A loaded model is represented by the arguments of \<open>models.load_model\<close>.
\<close>

record retinanet =
  model_path :: pyval
  backbone_name :: pyval
  convert :: pyval

text \<open>
  What the script delegates: the command line of the process, the clock (formatted by
  \<open>strftime\<close>), the evaluator of \<open>keras_retinanet\<close> (for each class label its
  average precision and its number of annotations, in the order of the dictionary),
  two attributes of the generator object, and the two metrics of \<open>DeepForest\<close>. They
  are functions of their arguments; a failure inside one of them is not a behaviour of
  the script and is not modelled.
\<close>

record world =
  sys_argv :: "string list"
  now_strftime :: string
  evaluate :: "generator \<Rightarrow> retinanet \<Rightarrow> pyval \<Rightarrow> pyval \<Rightarrow> pyval \<Rightarrow> string \<Rightarrow>
    (int \<times> real \<times> int) list"
  label_to_name :: "generator \<Rightarrow> int \<Rightarrow> string"
  annotation_dict :: "generator \<Rightarrow> (string \<times> annotation list) list"
  Jaccard :: "generator \<Rightarrow> retinanet \<Rightarrow> pyval \<Rightarrow> pyval \<Rightarrow> config \<Rightarrow> real"
  neonRecall :: "string \<Rightarrow> generator \<Rightarrow> retinanet \<Rightarrow> pyval \<Rightarrow> pyval \<Rightarrow> config \<Rightarrow> real"

text \<open>
  The effects of the script, as events. \<open>Log_parameter\<close> and \<open>Log_metric\<close> are the
  two logging methods of the experiment tracker.
\<close>

datatype event =
    Check_keras_version
  | Environ_set string string
  | Set_session
  | Log_parameter string pyval
  | Makedirs string
  | Print string
  | Load_model pyval pyval pyval
  | Print_model_summary retinanet
  | Evaluate generator retinanet pyval pyval pyval string
  | Print_class int string real
  | Print_mAP real
  | Log_metric string real
  | Call_Jaccard generator retinanet pyval pyval config
  | Print_mean_IoU real
  | Call_neonRecall string generator retinanet pyval pyval config
  | Print_recall real

text \<open>
  The state that the script changes: the environment variables of the process, the
  paths that exist in the file system, and the trace of events.
\<close>

record state =
  environ :: "string \<Rightarrow> string option"
  existing :: "string set"
  trace :: "event list"

definition emit :: "event \<Rightarrow> state \<Rightarrow> state" where
  "emit e s = s\<lparr>trace := trace s @ [e]\<rparr>"

text \<open>Truth value of a Python value, as in \<open>if args.gpu:\<close>.\<close>

fun truthy :: "pyval \<Rightarrow> bool" where
  "truthy PNone = False"
| "truthy (PBool b) = b"
| "truthy (PInt i) = (i \<noteq> 0)"
| "truthy (PFloat r) = (r \<noteq> 0)"
| "truthy (PStr s) = (s \<noteq> [])"
| "truthy (PList l) = (l \<noteq> [])"

text \<open>
  \<open>v + dirname\<close> for a string \<open>dirname\<close>: concatenation when \<open>v\<close> is a string, a
  \<open>TypeError\<close> otherwise (in particular for \<open>None\<close>).
\<close>

fun str_add :: "pyval \<Rightarrow> string \<Rightarrow> exn + string" where
  "str_add (PStr p) dirname = Inr (p @ dirname)"
| "str_add v dirname = Inl TypeError"

subsection \<open>\<open>main\<close> (lines 99-185)\<close>

text \<open>
  The body of \<open>main\<close> is split at lines 131, 140 and 152. An exception ends the run
  with the state reached so far.

  Lines 105-129: version check, optional choice of the GPU, session, start time,
  creation of the save path, generator, model.
\<close>

definition main_setup ::
  "globals \<Rightarrow> world \<Rightarrow> config \<Rightarrow> namespace \<Rightarrow> state \<Rightarrow>
   (exn + string \<times> generator \<times> retinanet) \<times> state" where
  "main_setup G W DeepForest_config_arg args s =
     (let s1 = emit Check_keras_version s in
      case (if truthy (gpu args)
            then (case gpu args of
                    PStr g \<Rightarrow>
                      Inr (emit (Environ_set ''CUDA_VISIBLE_DEVICES'' g)
                             (s1\<lparr>environ := (environ s1)(''CUDA_VISIBLE_DEVICES'' \<mapsto> g)\<rparr>))
                  | _ \<Rightarrow> Inl TypeError)
            else Inr s1) of
        Inl e \<Rightarrow> (Inl e, s1)
      | Inr s2 \<Rightarrow>
          (let s3 = emit Set_session s2;
               dirname = now_strftime W;
               s4 = emit (Log_parameter ''Start Time'' (PStr dirname)) s3
           in case (if save_path args \<noteq> PNone
                    then (case str_add (save_path args) dirname of
                            Inl e \<Rightarrow> Inl e
                          | Inr p \<Rightarrow>
                              if p \<notin> existing s4
                              then Inr (emit (Makedirs p) (s4\<lparr>existing := insert p (existing s4)\<rparr>))
                              else Inr s4)
                    else Inr s4) of
                Inl e \<Rightarrow> (Inl e, s4)
              | Inr s5 \<Rightarrow>
                  (let generator = create_generator G args DeepForest_config_arg;
                       s6 = emit (Print ''Loading model, this may take a second...'') s5;
                       model' = \<lparr> model_path = model args, backbone_name = backbone args,
                                 convert = convert_model args \<rparr>;
                       s7 = emit (Load_model (model args) (backbone args) (convert_model args)) s6;
                       s8 = emit (Print_model_summary model') s7
                   in (Inr (dirname, generator, model'), s8))))"

text \<open>
  Lines 131-138: the call of the evaluator. Its last argument is
  \<open>args.save_path + dirname\<close>, computed before the call.
\<close>

definition main_evaluate ::
  "world \<Rightarrow> namespace \<Rightarrow> string \<Rightarrow> generator \<Rightarrow> retinanet \<Rightarrow> state \<Rightarrow>
   (exn + (int \<times> real \<times> int) list) \<times> state" where
  "main_evaluate W args dirname generator model' s =
     (case str_add (save_path args) dirname of
        Inl e \<Rightarrow> (Inl e, s)
      | Inr p \<Rightarrow>
          (Inr (evaluate W generator model' (iou_threshold args) (score_threshold args)
                  (max_detections args) p),
           emit (Evaluate generator model' (iou_threshold args) (score_threshold args)
                   (max_detections args) p) s))"

text \<open>
  Lines 141-148: the loop over the items of \<open>average_precisions\<close>, with the two
  accumulators \<open>present_classes\<close> and \<open>precision\<close>.
\<close>

fun mAP_loop ::
  "world \<Rightarrow> generator \<Rightarrow> (int \<times> real \<times> int) list \<Rightarrow> nat \<Rightarrow> real \<Rightarrow> state \<Rightarrow>
   nat \<times> real \<times> state" where
  "mAP_loop W generator [] present_classes precision s = (present_classes, precision, s)"
| "mAP_loop W generator ((label, average_precision, num_annotations) # rest)
     present_classes precision s =
     (let s' = emit (Print_class num_annotations (label_to_name W generator label)
                       average_precision) s
      in if num_annotations > 0
         then mAP_loop W generator rest (present_classes + 1) (precision + average_precision) s'
         else mAP_loop W generator rest present_classes precision s')"

text \<open>
  Lines 141-150: the mean average precision is printed and logged. Both accumulators
  are Python ints when no class has annotations, and the division of line 149 raises
  \<open>ZeroDivisionError\<close>.
\<close>

definition main_mAP ::
  "world \<Rightarrow> generator \<Rightarrow> (int \<times> real \<times> int) list \<Rightarrow> state \<Rightarrow> (exn + unit) \<times> state" where
  "main_mAP W generator average_precisions s =
     (let (present_classes, precision, s1) = mAP_loop W generator average_precisions 0 0 s in
      if present_classes = 0 then (Inl ZeroDivisionError, s1)
      else
        (let s2 = emit (Print_mAP (precision / real present_classes)) s1;
             s3 = emit (Log_metric ''mAP'' (precision / real present_classes)) s2
         in (Inr (), s3)))"

text \<open>
  Lines 152-185: the mean IoU for the site \<open>OSBS\<close>, the recall, the number of trees.
\<close>

definition main_site_metrics ::
  "globals \<Rightarrow> world \<Rightarrow> config \<Rightarrow> namespace \<Rightarrow> generator \<Rightarrow> retinanet \<Rightarrow> state \<Rightarrow> state" where
  "main_site_metrics G W DeepForest_config_arg args generator model' s =
     (let s1 =
        (if site G = ''OSBS'' then
           (let jaccard = Jaccard W generator model' (score_threshold args) (save_path args)
                            DeepForest_config_arg;
                t1 = emit (Call_Jaccard generator model' (score_threshold args) (save_path args)
                             DeepForest_config_arg) s;
                t2 = emit (Print_mean_IoU jaccard) t1
            in emit (Log_metric ''Mean IoU'' jaccard) t2)
         else s);
          recall = neonRecall W (site G) generator model' (score_threshold args) (save_path args)
                     DeepForest_config_arg;
          s2 = emit (Call_neonRecall (site G) generator model' (score_threshold args)
                       (save_path args) DeepForest_config_arg) s1;
          s3 = emit (Log_metric ''Recall'' recall) s2;
          s4 = emit (Print_recall recall) s3;
          ntrees = map (\<lambda>x. PInt (int (length x))) (map snd (annotation_dict W generator))
      in emit (Log_parameter ''Number of Trees'' (PList ntrees)) s4)"

text \<open>
  \<open>main\<close>. The parameter \<open>experiment\<close> is the tracker that receives the
  \<open>Log_parameter\<close> and \<open>Log_metric\<close> events. When \<open>args\<close> is \<open>None\<close> the command line
  of the process is parsed. \<open>parse_args\<close> ends the process when it fails.
\<close>

definition main ::
  "pylib \<Rightarrow> globals \<Rightarrow> world \<Rightarrow> config \<Rightarrow> string list option \<Rightarrow> state \<Rightarrow> (exn + unit) \<times> state" where
  "main L G W DeepForest_config_arg args s =
     (let argv = (case args of None \<Rightarrow> drop 1 (sys_argv W) | Some a \<Rightarrow> a) in
      case parse_args L argv of
        Inl e \<Rightarrow> (Inl e, s)
      | Inr a \<Rightarrow>
          (case main_setup G W DeepForest_config_arg a s of
             (Inl e, s1) \<Rightarrow> (Inl e, s1)
           | (Inr (dirname, generator, model'), s1) \<Rightarrow>
               (case main_evaluate W a dirname generator model' s1 of
                  (Inl e, s2) \<Rightarrow> (Inl e, s2)
                | (Inr average_precisions, s2) \<Rightarrow>
                    (case main_mAP W generator average_precisions s2 of
                       (Inl e, s3) \<Rightarrow> (Inl e, s3)
                     | (Inr u, s3) \<Rightarrow>
                         (Inr (), main_site_metrics G W DeepForest_config_arg a generator
                                    model' s3)))))"

section \<open>Properties\<close>

text \<open>
  C10. \<open>create_generator\<close> never reads its second parameter: whatever is passed as
  \<open>config\<close>, the generator it builds is the same. The configuration it uses is the
  module-level \<open>DeepForest_config\<close>, and the split comes from the module-level
  \<open>preprocess\<close>.
\<close>

theorem create_generator_ignores_config:
  "create_generator G args c1 = create_generator G args c2"
  by (simp add: create_generator_def)

end
